theory Spec2Isabelle
  imports Main "HOL-Library.Word"
begin

unbundle bit_operations_syntax

section \<open>Python values\<close>

text \<open>
  The badge code is dynamically typed: a logo reference is a string, a byte sequence,
  a path, a URL object or a pair of an extension and one of these, and the code
  dispatches on the runtime shape with \<open>isinstance\<close>. The values that reach the
  modelled functions are therefore one datatype. A \<open>pathlib.Path\<close> is carried by its
  path text and a \<open>pylinks.url.URL\<close> object, where it is a logo reference or an image
  source, by the text that \<open>str\<close> gives for it. \<open>PTuple\<close> stands for a tuple and
  for a list, which the resolver treats alike.
\<close>

type_synonym byte = "8 word"

datatype pyval =
    PNone
  | PBool bool
  | PInt int
  | PStr string
  | PBytes "byte list"
  | PPath string
  | PURL string
  | PTuple "pyval list"

text \<open>
  Truth value of a Python object, as \<open>or\<close>, \<open>not\<close> and \<open>if\<close> test it: \<open>None\<close>,
  \<open>False\<close>, zero and empty sequences are false. Path and URL objects are true, which
  is what Python gives an object whose class defines neither \<open>__bool__\<close> nor
  \<open>__len__\<close>.
\<close>

fun truthy :: "pyval \<Rightarrow> bool" where
  "truthy PNone = False"
| "truthy (PBool b) = b"
| "truthy (PInt i) = (i \<noteq> 0)"
| "truthy (PStr s) = (s \<noteq> [])"
| "truthy (PBytes b) = (b \<noteq> [])"
| "truthy (PPath p) = True"
| "truthy (PURL u) = True"
| "truthy (PTuple xs) = (xs \<noteq> [])"

text \<open>\<open>a or b\<close> evaluates to \<open>a\<close> when \<open>a\<close> is true and to \<open>b\<close> otherwise.\<close>

definition py_or :: "pyval \<Rightarrow> pyval \<Rightarrow> pyval" where
  "py_or a b = (if truthy a then a else b)"

text \<open>
  A \<open>dict\<close> with string keys is a map; \<open>d1 | d2\<close> is \<open>d1 ++ d2\<close> (the right operand
  wins on a key of both) and \<open>d[k] = v\<close> is \<open>d(k \<mapsto> v)\<close>.
\<close>

type_synonym dict = "string \<rightharpoonup> pyval"

text \<open>
  The right operand of an overloaded \<open>+\<close>: \<open>None\<close>, an object of the class that
  defines the operator, or a value of any other kind.
\<close>

datatype 'a operand = Absent | Obj 'a | Foreign pyval

text \<open>The exceptions the modelled code raises, one constructor for each raise.\<close>

datatype error =
    ValueError_bare
  | ValueError_extension pyval
  | ValueError_logo_type pyval
  | TypeError_settings
  | TypeError_badges
  | TypeError_keyword string
  | TypeError_operand
  | TypeError_mapping
  | AttributeError string
  | KeyError pyval
  | IOFailure string

section \<open>Shields settings (shields/badge.py)\<close>

record ShieldsSettings =
  style :: pyval
  color :: pyval
  label :: pyval
  label_color :: pyval
  logo :: pyval
  logo_color :: pyval
  logo_size :: pyval
  logo_width :: pyval
  cache_seconds :: pyval

text \<open>
  \<open>ShieldsSettings.__call__\<close> is \<open>dataclasses.asdict\<close>: a dict with one entry for
  each declared field, whatever its value, \<open>None\<close> included.
\<close>

definition asdict :: "ShieldsSettings \<Rightarrow> dict" where
  "asdict s =
     [''style'' \<mapsto> style s,
      ''color'' \<mapsto> color s,
      ''label'' \<mapsto> label s,
      ''label_color'' \<mapsto> label_color s,
      ''logo'' \<mapsto> logo s,
      ''logo_color'' \<mapsto> logo_color s,
      ''logo_size'' \<mapsto> logo_size s,
      ''logo_width'' \<mapsto> logo_width s,
      ''cache_seconds'' \<mapsto> cache_seconds s]"

definition settings_fields :: "string list" where
  "settings_fields =
     [''style'', ''color'', ''label'', ''label_color'', ''logo'', ''logo_color'',
      ''logo_size'', ''logo_width'', ''cache_seconds'']"

text \<open>A keyword argument that was not passed takes the field's default, \<open>None\<close>.\<close>

definition kwarg :: "dict \<Rightarrow> string \<Rightarrow> pyval" where
  "kwarg kw k = (case kw k of Some v \<Rightarrow> v | None \<Rightarrow> PNone)"

text \<open>
  \<open>ShieldsSettings(**kwargs)\<close>, the constructor the dataclass generates: a keyword
  that names no field is a \<open>TypeError\<close>.
\<close>

definition ShieldsSettings_init :: "dict \<Rightarrow> error + ShieldsSettings" where
  "ShieldsSettings_init kw =
     (if \<not> dom kw \<subseteq> set settings_fields
      then Inl (TypeError_keyword ''ShieldsSettings'')
      else Inr \<lparr>style = kwarg kw ''style'',
                color = kwarg kw ''color'',
                label = kwarg kw ''label'',
                label_color = kwarg kw ''label_color'',
                logo = kwarg kw ''logo'',
                logo_color = kwarg kw ''logo_color'',
                logo_size = kwarg kw ''logo_size'',
                logo_width = kwarg kw ''logo_width'',
                cache_seconds = kwarg kw ''cache_seconds''\<rparr>)"

text \<open>\<open>ShieldsSettings.__add__\<close>\<close>

definition settings_add ::
  "ShieldsSettings \<Rightarrow> ShieldsSettings operand \<Rightarrow> error + ShieldsSettings" where
  "settings_add self other =
     (case other of
        Absent \<Rightarrow> Inr self
      | Foreign v \<Rightarrow> Inl TypeError_settings
      | Obj b \<Rightarrow> ShieldsSettings_init (asdict self ++ asdict b))"

text \<open>\<open>ShieldsSettings.__radd__\<close>, which Python calls for \<open>other + self\<close> when the
  left operand's class does not handle the addition, as for \<open>None + self\<close>.\<close>

definition settings_radd ::
  "ShieldsSettings \<Rightarrow> ShieldsSettings operand \<Rightarrow> error + ShieldsSettings" where
  "settings_radd self other =
     (case other of
        Absent \<Rightarrow> Inr self
      | _ \<Rightarrow> Inl TypeError_settings)"

section \<open>Base64 (Python's \<open>base64\<close> module)\<close>

text \<open>
  \<open>base64.b64encode\<close> belongs to Python's standard library, not to the repository.
  It is the encoding of RFC 4648 with the standard alphabet and \<open>=\<close> padding: three
  bytes form a group of 24 bits that is cut into four groups of 6 bits, each of them
  an index into the alphabet; a last group of one or two bytes is filled with zero
  bits and padded. The result is ASCII, so the \<open>.decode()\<close> that follows it in
  \<open>encode_logo\<close> gives the same characters as a \<open>str\<close>.
\<close>

definition b64_alphabet :: string where
  "b64_alphabet = ''ABCDEFGHIJKLMNOPQRSTUVWXYZabcdefghijklmnopqrstuvwxyz0123456789+/''"

definition b64_char :: "nat \<Rightarrow> char" where
  "b64_char s = b64_alphabet ! s"

definition group24 :: "byte \<Rightarrow> byte \<Rightarrow> byte \<Rightarrow> nat" where
  "group24 a b c = unat a * 65536 + unat b * 256 + unat c"

fun b64encode :: "byte list \<Rightarrow> string" where
  "b64encode [] = []"
| "b64encode [a] =
     (let n = group24 a 0 0
      in [b64_char (n div 262144), b64_char (n div 4096 mod 64), CHR ''='', CHR ''=''])"
| "b64encode [a, b] =
     (let n = group24 a b 0
      in [b64_char (n div 262144), b64_char (n div 4096 mod 64),
          b64_char (n div 64 mod 64), CHR ''=''])"
| "b64encode (a # b # c # rest) =
     (let n = group24 a b c
      in [b64_char (n div 262144), b64_char (n div 4096 mod 64),
          b64_char (n div 64 mod 64), b64_char (n mod 64)])
     @ b64encode rest"

text \<open>
  The decoder of the same RFC, for padded input: every four characters give three
  bytes, a final \<open>xx==\<close> gives one and a final \<open>xxx=\<close> two. Anything else is
  rejected.
\<close>

fun index_of :: "'a \<Rightarrow> 'a list \<Rightarrow> nat option" where
  "index_of x [] = None"
| "index_of x (y # ys) = (if x = y then Some 0 else map_option Suc (index_of x ys))"

definition b64_value :: "char \<Rightarrow> nat option" where
  "b64_value c = index_of c b64_alphabet"

definition ungroup24 :: "nat \<Rightarrow> nat \<Rightarrow> nat \<Rightarrow> nat \<Rightarrow> nat" where
  "ungroup24 x1 x2 x3 x4 = x1 * 262144 + x2 * 4096 + x3 * 64 + x4"

definition byte1 :: "nat \<Rightarrow> byte" where
  "byte1 m = of_nat (m div 65536)"

definition byte2 :: "nat \<Rightarrow> byte" where
  "byte2 m = of_nat (m div 256 mod 256)"

definition byte3 :: "nat \<Rightarrow> byte" where
  "byte3 m = of_nat (m mod 256)"

fun b64decode :: "string \<Rightarrow> byte list option" where
  "b64decode [] = Some []"
| "b64decode (c1 # c2 # c3 # c4 # rest) =
     (case (b64_value c1, b64_value c2) of
        (Some x1, Some x2) \<Rightarrow>
          if c3 = CHR ''='' \<and> c4 = CHR ''='' \<and> rest = []
          then Some [byte1 (ungroup24 x1 x2 0 0)]
          else (case b64_value c3 of
                  None \<Rightarrow> None
                | Some x3 \<Rightarrow>
                    if c4 = CHR ''='' \<and> rest = []
                    then Some [byte1 (ungroup24 x1 x2 x3 0), byte2 (ungroup24 x1 x2 x3 0)]
                    else (case b64_value c4 of
                            None \<Rightarrow> None
                          | Some x4 \<Rightarrow>
                              map_option
                                (\<lambda>bs. byte1 (ungroup24 x1 x2 x3 x4)
                                     # byte2 (ungroup24 x1 x2 x3 x4)
                                     # byte3 (ungroup24 x1 x2 x3 x4) # bs)
                                (b64decode rest)))
      | _ \<Rightarrow> None)"
| "b64decode _ = None"

section \<open>The logo resolver (\<open>ShieldsBadge._process_logo\<close>, shields/badge.py)\<close>

text \<open>
  The resolver fetches a remote logo with \<open>pylinks.http.request\<close> and reads a local
  one with \<open>Path.read_bytes\<close>. Both are collaborators outside the repository, as is
  \<open>Path.suffix\<close>; they are parameters of the model, and each may fail. Every call of
  a fetch or a read is an event of the log that the model returns beside its result,
  so that "no I/O happened" is "the log is empty".
\<close>

record collaborators =
  http_request :: "pyval \<Rightarrow> error + byte list"
  read_bytes :: "string \<Rightarrow> error + byte list"
  path_suffix :: "string \<Rightarrow> string"

datatype io_event = Fetched pyval | Read_file string

definition mime_type :: "(string \<times> string) list" where
  "mime_type =
     [(''apng'', ''image/apng''),
      (''avif'', ''image/avif''),
      (''bmp'', ''image/bmp''),
      (''gif'', ''image/gif''),
      (''ico'', ''image/x-icon''),
      (''jpg'', ''image/jpeg''),
      (''jpeg'', ''image/jpeg''),
      (''png'', ''image/png''),
      (''svg'', ''image/svg+xml''),
      (''tif'', ''image/tiff''),
      (''tiff'', ''image/tiff''),
      (''webp'', ''image/webp'')]"

text \<open>
  \<open>mime_type.get(extension)\<close>: the keys are strings, and a value of another type is
  equal to none of them. \<open>extension not in mime_type\<close> is \<open>mime_lookup extension = None\<close>.
\<close>

definition mime_lookup :: "pyval \<Rightarrow> string option" where
  "mime_lookup extension =
     (case extension of PStr e \<Rightarrow> map_of mime_type e | _ \<Rightarrow> None)"

definition encode_logo :: "byte list \<Rightarrow> string \<Rightarrow> string" where
  "encode_logo content mt = ''data:'' @ mt @ '';base64,'' @ b64encode content"

definition startswith :: "string \<Rightarrow> string \<Rightarrow> bool" where
  "startswith s p = (take (length p) s = p)"

text \<open>\<open>s.rsplit(".", 1)[-1]\<close>: what follows the last dot, or all of \<open>s\<close> without a dot.\<close>

definition rsplit_last :: "string \<Rightarrow> string" where
  "rsplit_last s = rev (takeWhile (\<lambda>ch. ch \<noteq> CHR ''.'') (rev s))"

text \<open>
  Lines 88 to 97: a tuple must have two elements, and its first, the extension, must
  be a key of \<open>mime_type\<close>; any other reference has no extension.
\<close>

definition split_logo :: "pyval \<Rightarrow> error + pyval \<times> pyval" where
  "split_logo lg =
     (case lg of
        PTuple xs \<Rightarrow>
          if length xs \<noteq> 2 then Inl ValueError_bare
          else if mime_lookup (xs ! 0) = None then Inl (ValueError_extension (xs ! 0))
          else Inr (xs ! 0, xs ! 1)
      | _ \<Rightarrow> Inr (PNone, lg))"

text \<open>
  The expressions that infer an extension read the attribute of \<open>logo\<close>, not of
  \<open>data\<close>: \<open>logo.rsplit\<close> exists on a string and \<open>logo.suffix\<close> on a path.
\<close>

definition logo_rsplit :: "pyval \<Rightarrow> error + pyval" where
  "logo_rsplit lg =
     (case lg of
        PStr s \<Rightarrow> Inr (PStr (rsplit_last s))
      | _ \<Rightarrow> Inl (AttributeError ''rsplit''))"

definition logo_suffix :: "collaborators \<Rightarrow> pyval \<Rightarrow> error + pyval" where
  "logo_suffix c lg =
     (case lg of
        PPath p \<Rightarrow> Inr (PStr (drop 1 (path_suffix c p)))
      | _ \<Rightarrow> Inl (AttributeError ''suffix''))"

text \<open>
  The three lines that end every branch with fetched or read content:
  \<open>extension = extension or <inferred>\<close>, the test against \<open>mime_type\<close>, and the
  encoding. The inferred extension is evaluated only when \<open>extension\<close> is false.
\<close>

definition finish_logo :: "byte list \<Rightarrow> pyval \<Rightarrow> error + pyval \<Rightarrow> error + string" where
  "finish_logo content extension inferred =
     (case (if truthy extension then Inr extension else inferred) of
        Inl e \<Rightarrow> Inl e
      | Inr ext \<Rightarrow>
          (case mime_lookup ext of
             None \<Rightarrow> Inl (ValueError_extension ext)
           | Some mt \<Rightarrow> Inr (encode_logo content mt)))"

definition process_logo :: "collaborators \<Rightarrow> pyval \<Rightarrow> io_event list \<times> (error + string)" where
  "process_logo c lg =
     (case split_logo lg of
        Inl e \<Rightarrow> ([], Inl e)
      | Inr (extension, data) \<Rightarrow>
          (case data of
             PStr s \<Rightarrow>
               if startswith s ''http://'' \<or> startswith s ''https://''
               then (case http_request c data of
                       Inl e \<Rightarrow> ([Fetched data], Inl e)
                     | Inr content \<Rightarrow>
                         ([Fetched data], finish_logo content extension (logo_rsplit lg)))
               else ([], Inr s)
           | PBytes b \<Rightarrow>
               if extension = PNone then ([], Inl ValueError_bare)
               else (case mime_lookup extension of
                       None \<Rightarrow> ([], Inl (KeyError extension))
                     | Some mt \<Rightarrow> ([], Inr (encode_logo b mt)))
           | PPath p \<Rightarrow>
               (case read_bytes c p of
                  Inl e \<Rightarrow> ([Read_file p], Inl e)
                | Inr content \<Rightarrow>
                    ([Read_file p], finish_logo content extension (logo_suffix c lg)))
           | PURL u \<Rightarrow>
               (case http_request c data of
                  Inl e \<Rightarrow> ([Fetched data], Inl e)
                | Inr content \<Rightarrow>
                    ([Fetched data],
                     finish_logo content extension (Inr (PStr (rsplit_last u)))))
           | _ \<Rightarrow> ([], Inl (ValueError_logo_type lg))))"

text \<open>The part of a data URI after its first comma.\<close>

definition payload :: "string \<Rightarrow> string" where
  "payload s = drop 1 (dropWhile (\<lambda>ch. ch \<noteq> CHR '','') s)"

section \<open>The badge descriptor (badge.py)\<close>

text \<open>
  An attribute of a Python object can hold any value. The five attribute maps are
  fields that hold a dict or \<open>None\<close>, so that "the map is never absent" is a property
  of the operations and not of the types.
\<close>

record Badge =
  src_light :: pyval
  src_dark :: pyval
  image_attributes :: "dict option"
  anchor_attributes :: "dict option"
  picture_attributes :: "dict option"
  src_light_attributes :: "dict option"
  src_dark_attributes :: "dict option"
  default_img_light :: bool

text \<open>\<open>attrs or {}\<close>: an absent dict is an empty one, and an empty one stays empty.\<close>

definition or_empty :: "dict option \<Rightarrow> dict" where
  "or_empty d = (case d of None \<Rightarrow> Map.empty | Some m \<Rightarrow> m)"

text \<open>\<open>Badge.__init__\<close>\<close>

definition Badge_init ::
  "pyval \<Rightarrow> pyval \<Rightarrow> dict option \<Rightarrow> dict option \<Rightarrow> dict option \<Rightarrow> dict option
    \<Rightarrow> dict option \<Rightarrow> bool \<Rightarrow> Badge" where
  "Badge_init sl sd ia aa pa sla sda dil =
     \<lparr>src_light = sl,
      src_dark = sd,
      image_attributes = Some (or_empty ia),
      anchor_attributes = Some (or_empty aa),
      picture_attributes = Some (or_empty pa),
      src_light_attributes = Some (or_empty sla),
      src_dark_attributes = Some (or_empty sda),
      default_img_light = dil\<rparr>"

text \<open>
  The markup is built by \<open>markitup.html\<close>, outside the repository; an element is what
  the badge hands to it: the source and the attributes of an image, and the
  attributes of the anchor around it.
\<close>

datatype element = Img pyval dict | Anchor element dict

fun element_src :: "element \<Rightarrow> pyval" where
  "element_src (Img src attrs) = src"
| "element_src (Anchor e attrs) = element_src e"

text \<open>\<open>x if isinstance(x, dict) else y\<close>, for an argument that is a dict or \<open>None\<close>.\<close>

definition dict_or_else :: "dict option \<Rightarrow> dict option \<Rightarrow> dict option" where
  "dict_or_else x y = (case x of Some d \<Rightarrow> Some d | None \<Rightarrow> y)"

text \<open>
  \<open>_html.img(src=src, **image_attributes)\<close>: Python itself raises a \<open>TypeError\<close>
  when what follows \<open>**\<close> is no mapping, and when it has the key \<open>src\<close>, which is
  also passed by name.
\<close>

definition html_img :: "pyval \<Rightarrow> dict option \<Rightarrow> error + element" where
  "html_img src attrs =
     (case attrs of
        None \<Rightarrow> Inl TypeError_mapping
      | Some d \<Rightarrow> if d ''src'' \<noteq> None then Inl (TypeError_keyword ''src'') else Inr (Img src d))"

text \<open>\<open>Badge.img\<close>\<close>

definition img :: "Badge \<Rightarrow> dict option \<Rightarrow> dict option \<Rightarrow> bool option \<Rightarrow> error + element" where
  "img self image_attrs anchor_attrs light =
     (let attrs = dict_or_else image_attrs (image_attributes self);
          default_light = (case light of Some l \<Rightarrow> l | None \<Rightarrow> default_img_light self);
          src = (if default_light then src_light self
                 else if truthy (src_dark self) then src_dark self else src_light self)
      in case html_img src attrs of
           Inl e \<Rightarrow> Inl e
         | Inr im \<Rightarrow>
             (case dict_or_else anchor_attrs (anchor_attributes self) of
                None \<Rightarrow> Inr im
              | Some a_attrs \<Rightarrow> if a_attrs = Map.empty then Inr im else Inr (Anchor im a_attrs)))"

text \<open>
  \<open>Badge.set\<close>: each argument that is not \<open>None\<close> is merged into the attribute with
  \<open>getattr(self, attr) | value\<close>, a \<open>TypeError\<close> when the attribute holds \<open>None\<close>;
  the flag is replaced. The method changes \<open>self\<close>; the model returns the badge
  after the call.
\<close>

definition merge_attr :: "dict option \<Rightarrow> dict option \<Rightarrow> error + dict option" where
  "merge_attr current val =
     (case val of
        None \<Rightarrow> Inr current
      | Some v \<Rightarrow>
          (case current of
             None \<Rightarrow> Inl TypeError_operand
           | Some d \<Rightarrow> Inr (Some (d ++ v))))"

definition Badge_set ::
  "Badge \<Rightarrow> dict option \<Rightarrow> dict option \<Rightarrow> dict option \<Rightarrow> dict option \<Rightarrow> dict option
    \<Rightarrow> bool option \<Rightarrow> error + Badge" where
  "Badge_set self ia aa pa sla sda dil =
     (case merge_attr (image_attributes self) ia of
        Inl e \<Rightarrow> Inl e
      | Inr ia' \<Rightarrow>
     (case merge_attr (anchor_attributes self) aa of
        Inl e \<Rightarrow> Inl e
      | Inr aa' \<Rightarrow>
     (case merge_attr (picture_attributes self) pa of
        Inl e \<Rightarrow> Inl e
      | Inr pa' \<Rightarrow>
     (case merge_attr (src_light_attributes self) sla of
        Inl e \<Rightarrow> Inl e
      | Inr sla' \<Rightarrow>
     (case merge_attr (src_dark_attributes self) sda of
        Inl e \<Rightarrow> Inl e
      | Inr sda' \<Rightarrow>
          Inr (self\<lparr>image_attributes := ia',
                    anchor_attributes := aa',
                    picture_attributes := pa',
                    src_light_attributes := sla',
                    src_dark_attributes := sda',
                    default_img_light :=
                      (case dil of None \<Rightarrow> default_img_light self | Some v \<Rightarrow> v)\<rparr>))))))"

text \<open>\<open>a | b\<close> for two attributes: a \<open>TypeError\<close> unless both hold a dict.\<close>

definition dict_union :: "dict option \<Rightarrow> dict option \<Rightarrow> error + dict" where
  "dict_union a b =
     (case (a, b) of
        (Some d, Some e) \<Rightarrow> Inr (d ++ e)
      | _ \<Rightarrow> Inl TypeError_operand)"

text \<open>\<open>Badge.__add__\<close>\<close>

definition Badge_add :: "Badge \<Rightarrow> Badge operand \<Rightarrow> error + Badge" where
  "Badge_add self other =
     (case other of
        Absent \<Rightarrow> Inr self
      | Foreign v \<Rightarrow> Inl TypeError_badges
      | Obj b \<Rightarrow>
     (case dict_union (image_attributes self) (image_attributes b) of
        Inl e \<Rightarrow> Inl e
      | Inr ia \<Rightarrow>
     (case dict_union (anchor_attributes self) (anchor_attributes b) of
        Inl e \<Rightarrow> Inl e
      | Inr aa \<Rightarrow>
     (case dict_union (picture_attributes self) (picture_attributes b) of
        Inl e \<Rightarrow> Inl e
      | Inr pa \<Rightarrow>
     (case dict_union (src_light_attributes self) (src_light_attributes b) of
        Inl e \<Rightarrow> Inl e
      | Inr sla \<Rightarrow>
     (case dict_union (src_dark_attributes self) (src_dark_attributes b) of
        Inl e \<Rightarrow> Inl e
      | Inr sda \<Rightarrow>
          Inr (Badge_init
                 (py_or (src_light b) (src_light self))
                 (py_or (src_dark b) (src_dark self))
                 (Some ia) (Some aa) (Some pa) (Some sla) (Some sda)
                 (default_img_light self \<or> default_img_light b))))))))"

text \<open>The invariant of a descriptor: each of the five attributes holds a dict.\<close>

definition attrs_defined :: "Badge \<Rightarrow> bool" where
  "attrs_defined b =
     (image_attributes b \<noteq> None \<and> anchor_attributes b \<noteq> None
      \<and> picture_attributes b \<noteq> None \<and> src_light_attributes b \<noteq> None
      \<and> src_dark_attributes b \<noteq> None)"

section \<open>Concrete inputs\<close>

text \<open>The inputs at which the theorems below are evaluated.\<close>

definition settings_none :: ShieldsSettings where
  "settings_none =
     \<lparr>style = PNone, color = PNone, label = PNone, label_color = PNone, logo = PNone,
      logo_color = PNone, logo_size = PNone, logo_width = PNone, cache_seconds = PNone\<rparr>"

definition settings_blue :: ShieldsSettings where
  "settings_blue = settings_none\<lparr>color := PStr ''blue''\<rparr>"

definition offline :: collaborators where
  "offline =
     \<lparr>http_request = (\<lambda>u. Inl (IOFailure ''offline'')),
      read_bytes = (\<lambda>p. Inl (IOFailure ''offline'')),
      path_suffix = (\<lambda>p. [])\<rparr>"

definition online :: collaborators where
  "online =
     \<lparr>http_request = (\<lambda>u. Inr [1, 2, 3]),
      read_bytes = (\<lambda>p. Inr [1, 2, 3]),
      path_suffix = (\<lambda>p. ''.png'')\<rparr>"

definition badge_a :: Badge where
  "badge_a =
     Badge_init (PStr ''a.svg'') PNone (Some [''alt'' \<mapsto> PStr ''A'']) None None None None False"

definition badge_b :: Badge where
  "badge_b =
     Badge_init (PStr ''b.svg'') (PStr ''b-dark.svg'')
       (Some [''alt'' \<mapsto> PStr ''B'', ''height'' \<mapsto> PStr ''20''])
       (Some [''href'' \<mapsto> PStr ''https://example.org'']) None None None True"

section \<open>The settings combination\<close>

lemma dom_asdict: "dom (asdict s) = set settings_fields"
  by (auto simp add: asdict_def settings_fields_def split: if_splits)

lemma asdict_add: "asdict a ++ asdict b = asdict b"
  by (rule ext) (simp add: asdict_def map_add_def)

lemma ShieldsSettings_init_asdict: "ShieldsSettings_init (asdict s) = Inr s"
  by (simp add: ShieldsSettings_init_def dom_asdict) (simp add: asdict_def kwarg_def)

text \<open>The sum of two settings objects is the right one, whatever the left one holds.\<close>

lemma settings_add_is_right: "settings_add a (Obj b) = Inr b"
  by (simp add: settings_add_def asdict_add ShieldsSettings_init_asdict)

text \<open>
  C1. The claim: \<open>a + b\<close> has, field by field, the value of \<open>b\<close> where \<open>b\<close> has
  one and the value of \<open>a\<close> otherwise, and drops no field that either operand has.
  The code does not do this: \<open>asdict\<close> gives both dicts all nine keys, so the union
  is the dict of \<open>b\<close> and the sum is \<open>b\<close> (\<open>settings_add_is_right\<close>). Evaluated at
  settings with only the color \<open>blue\<close> plus settings with nothing set, the sum has no
  color.
\<close>

theorem settings_add_drops_left_fields:
  "settings_add settings_blue (Obj settings_none) = Inr settings_none
   \<and> color settings_blue = PStr ''blue'' \<and> color settings_none = PNone"
  by (simp add: settings_add_is_right settings_blue_def settings_none_def)

text \<open>
  C7. Absent settings are the identity of the combination on either side:
  \<open>a + None\<close> is \<open>a.__add__(None)\<close> and returns \<open>a\<close>; \<open>None + b\<close> is
  \<open>b.__radd__(None)\<close>, since \<open>None\<close> has no addition of its own, and returns \<open>b\<close>.
\<close>

theorem settings_absent_identity:
  "settings_add a Absent = Inr a \<and> settings_radd b Absent = Inr b"
  by (simp add: settings_add_def settings_radd_def)

section \<open>Base64 round trip\<close>

lemma index_of_nth: "distinct xs \<Longrightarrow> i < length xs \<Longrightarrow> index_of (xs ! i) xs = Some i"
proof (induction xs arbitrary: i)
  case Nil
  then show ?case by simp
next
  case (Cons y ys)
  show ?case
  proof (cases i)
    case 0
    then show ?thesis by simp
  next
    case (Suc j)
    with Cons.prems have "ys ! j \<in> set ys" "y \<notin> set ys" by auto
    then have "ys ! j \<noteq> y" by auto
    with Cons Suc show ?thesis by simp
  qed
qed

lemma distinct_b64_alphabet: "distinct b64_alphabet"
  unfolding b64_alphabet_def by simp

lemma length_b64_alphabet: "length b64_alphabet = 64"
  unfolding b64_alphabet_def by simp

lemma pad_not_in_alphabet: "CHR ''='' \<notin> set b64_alphabet"
  unfolding b64_alphabet_def by simp

lemma b64_value_char: "s < 64 \<Longrightarrow> b64_value (b64_char s) = Some s"
  by (simp add: b64_value_def b64_char_def index_of_nth distinct_b64_alphabet
      length_b64_alphabet)

lemma b64_char_not_pad:
  assumes "s < 64"
  shows "b64_char s \<noteq> CHR ''=''"
proof -
  from assms have "b64_alphabet ! s \<in> set b64_alphabet"
    by (simp add: length_b64_alphabet)
  with pad_not_in_alphabet show ?thesis by (auto simp: b64_char_def)
qed

lemma byte_less: "unat (a :: byte) < 256"
  using unsigned_less [of a, where ?'a = nat] by simp

lemma group24_less: "group24 a b c < 16777216"
  using byte_less [of a] byte_less [of b] byte_less [of c] by (simp add: group24_def)

lemma sextets_less:
  "n < 16777216 \<Longrightarrow> n div 262144 < (64::nat)"
  "n div 4096 mod 64 < (64::nat)"
  "n div 64 mod 64 < (64::nat)"
  "n mod 64 < (64::nat)"
  by (simp_all add: less_mult_imp_div_less)

lemma ungroup_sextets:
  "ungroup24 (n div 262144) (n div 4096 mod 64) (n div 64 mod 64) (n mod 64) = n"
proof -
  have a: "n div 4096 = n div 64 div 64" and b: "n div 262144 = n div 64 div 64 div 64"
    by (simp_all add: div_mult2_eq [symmetric])
  define q where "q = n div 64"
  define r where "r = q div 64"
  have 1: "n = q * 64 + n mod 64" by (simp add: q_def)
  have 2: "q = r * 64 + q mod 64" by (simp add: r_def)
  have 3: "r = (r div 64) * 64 + r mod 64" by simp
  have "ungroup24 (r div 64) (r mod 64) (q mod 64) (n mod 64) = n"
    unfolding ungroup24_def using 1 2 3 by linarith
  then show ?thesis by (simp add: a b q_def r_def)
qed

lemma split_low_byte:
  fixes q r :: nat
  assumes "r < 256"
  shows "(q * 256 + r) div 256 = q" and "(q * 256 + r) mod 256 = r"
  using assms by simp_all

lemma bytes_of_group:
  "byte1 (group24 a b c) = a" "byte2 (group24 a b c) = b" "byte3 (group24 a b c) = c"
proof -
  have g: "group24 a b c = (unat a * 256 + unat b) * 256 + unat c"
    by (simp add: group24_def)
  have m: "group24 a b c mod 256 = unat c"
    unfolding g by (rule split_low_byte(2) [OF byte_less])
  have d: "group24 a b c div 256 = unat a * 256 + unat b"
    unfolding g by (rule split_low_byte(1) [OF byte_less])
  have "group24 a b c div 256 mod 256 = unat b"
    unfolding d by (rule split_low_byte(2) [OF byte_less])
  then show "byte2 (group24 a b c) = b" by (simp add: byte2_def)
  have "group24 a b c div 65536 = group24 a b c div 256 div 256"
    by (simp add: div_mult2_eq [symmetric])
  also have "\<dots> = unat a"
    unfolding d by (rule split_low_byte(1) [OF byte_less])
  finally show "byte1 (group24 a b c) = a" by (simp add: byte1_def)
  from m show "byte3 (group24 a b c) = c" by (simp add: byte3_def)
qed

lemma b64_roundtrip: "b64decode (b64encode bs) = Some bs"
proof (induction bs rule: b64encode.induct)
  case 1
  show ?case by simp
next
  case (2 a)
  let ?n = "group24 a 0 0"
  have n: "?n < 16777216" by (rule group24_less)
  have low: "?n div 64 mod 64 = 0" "?n mod 64 = 0"
    by (simp_all add: group24_def)
  have "ungroup24 (?n div 262144) (?n div 4096 mod 64) 0 0 = ?n"
    using ungroup_sextets [of ?n] by (simp add: low)
  then show ?case
    by (simp add: Let_def b64_value_char sextets_less n bytes_of_group)
next
  case (3 a b)
  let ?n = "group24 a b 0"
  have n: "?n < 16777216" by (rule group24_less)
  have low: "?n mod 64 = 0"
    by (simp add: group24_def)
  have "ungroup24 (?n div 262144) (?n div 4096 mod 64) (?n div 64 mod 64) 0 = ?n"
    using ungroup_sextets [of ?n] by (simp add: low)
  then show ?case
    by (simp add: Let_def b64_value_char b64_char_not_pad sextets_less n bytes_of_group)
next
  case (4 a b c rest)
  let ?n = "group24 a b c"
  have n: "?n < 16777216" by (rule group24_less)
  show ?case
    using 4
    by (simp add: Let_def b64_value_char b64_char_not_pad sextets_less n bytes_of_group
        ungroup_sextets)
qed

section \<open>The logo resolver\<close>

lemma mime_has_no_comma:
  assumes "map_of mime_type e = Some mt"
  shows "CHR '','' \<notin> set mt"
proof -
  from assms have "(e, mt) \<in> set mime_type" by (rule map_of_SomeD)
  then show ?thesis by (auto simp: mime_type_def)
qed

lemma payload_data_uri:
  assumes "CHR '','' \<notin> set mt"
  shows "payload (''data:'' @ mt @ '';base64,'' @ x) = x"
proof -
  have "dropWhile (\<lambda>ch. ch \<noteq> CHR '','') (mt @ '';base64,'' @ x) = CHR '','' # x"
    using assms by (simp add: dropWhile_append3 dropWhile_append)
  then show ?thesis by (simp add: payload_def)
qed

lemma b64encode_png: "b64encode [137, 80, 78, 71] = ''iVBORw==''"
  by (simp add: group24_def b64_char_def b64_alphabet_def)

text \<open>
  C4. For every supported extension \<open>e\<close>, with MIME type \<open>mt\<close>, and every byte
  sequence \<open>b\<close>, resolving the pair \<open>(e, b)\<close> gives the string
  \<open>data:<mt>;base64,<base64 of b>\<close> without any I/O, and decoding the payload of
  that string gives \<open>b\<close> back.
\<close>

theorem pair_of_bytes_resolves_to_data_uri:
  assumes "map_of mime_type e = Some mt"
  shows "process_logo c (PTuple [PStr e, PBytes b])
           = ([], Inr (''data:'' @ mt @ '';base64,'' @ b64encode b))
         \<and> b64decode (payload (''data:'' @ mt @ '';base64,'' @ b64encode b)) = Some b"
proof
  from assms show "process_logo c (PTuple [PStr e, PBytes b])
           = ([], Inr (''data:'' @ mt @ '';base64,'' @ b64encode b))"
    by (simp add: process_logo_def split_logo_def mime_lookup_def encode_logo_def)
  from assms have "payload (''data:'' @ mt @ '';base64,'' @ b64encode b) = b64encode b"
    by (intro payload_data_uri mime_has_no_comma)
  then show "b64decode (payload (''data:'' @ mt @ '';base64,'' @ b64encode b)) = Some b"
    by (simp add: b64_roundtrip)
qed

theorem pair_of_bytes_resolves_to_data_uri_witness:
  "map_of mime_type ''png'' = Some ''image/png''
   \<and> process_logo offline (PTuple [PStr ''png'', PBytes [137, 80, 78, 71]])
       = ([], Inr ''data:image/png;base64,iVBORw=='')
   \<and> b64decode (payload ''data:image/png;base64,iVBORw=='') = Some [137, 80, 78, 71]"
proof -
  have h: "map_of mime_type ''png'' = Some ''image/png''"
    by (simp add: mime_type_def)
  have "process_logo offline (PTuple [PStr ''png'', PBytes [137, 80, 78, 71]])
           = ([], Inr (''data:'' @ ''image/png'' @ '';base64,'' @ ''iVBORw==''))
         \<and> b64decode (payload (''data:'' @ ''image/png'' @ '';base64,'' @ ''iVBORw==''))
             = Some [137, 80, 78, 71]"
    using pair_of_bytes_resolves_to_data_uri [OF h, of offline "[137, 80, 78, 71]"]
    unfolding b64encode_png .
  with h show ?thesis by simp
qed

text \<open>
  C5. A pair whose extension is no key of \<open>mime_type\<close> fails with the
  \<open>ValueError\<close> "Logo extension ... is not recognized" (the spec's
  \<open>UnsupportedFormat\<close>) whatever its second element is, and the log of fetches and
  reads is empty: the test of line 93 comes before every I/O.
\<close>

theorem unsupported_extension_fails_before_io:
  assumes "mime_lookup ext = None"
  shows "process_logo c (PTuple [ext, src]) = ([], Inl (ValueError_extension ext))"
  using assms by (simp add: process_logo_def split_logo_def)

theorem unsupported_extension_fails_before_io_witness:
  "mime_lookup (PStr ''xyz'') = None
   \<and> process_logo online (PTuple [PStr ''xyz'', PStr ''https://example.org/logo.xyz''])
       = ([], Inl (ValueError_extension (PStr ''xyz'')))"
proof -
  have h: "mime_lookup (PStr ''xyz'') = None"
    by (simp add: mime_lookup_def mime_type_def)
  from unsupported_extension_fails_before_io [OF h] h show ?thesis by simp
qed

text \<open>
  C8. A byte sequence that comes without an extension fails with the bare
  \<open>ValueError\<close> of line 110 (the spec's \<open>MissingExtension\<close>): nothing is encoded, no
  string is returned, and nothing is fetched or read.
\<close>

theorem raw_bytes_need_extension:
  "process_logo c (PBytes b) = ([], Inl ValueError_bare)"
  by (simp add: process_logo_def split_logo_def)

section \<open>The badge descriptor\<close>

lemma attrs_defined_init: "attrs_defined (Badge_init sl sd ia aa pa sla sda dil)"
  by (simp add: attrs_defined_def Badge_init_def)

lemma attrs_defined_badge_a: "attrs_defined badge_a"
  unfolding badge_a_def by (rule attrs_defined_init)

lemma attrs_defined_badge_b: "attrs_defined badge_b"
  unfolding badge_b_def by (rule attrs_defined_init)

lemma dict_union_defined:
  "a \<noteq> None \<Longrightarrow> b \<noteq> None \<Longrightarrow> dict_union a b = Inr (or_empty a ++ or_empty b)"
  by (auto simp: dict_union_def or_empty_def)

lemma Badge_add_Obj:
  assumes "attrs_defined a" "attrs_defined b"
  shows "Badge_add a (Obj b) =
     Inr (Badge_init
            (py_or (src_light b) (src_light a))
            (py_or (src_dark b) (src_dark a))
            (Some (or_empty (image_attributes a) ++ or_empty (image_attributes b)))
            (Some (or_empty (anchor_attributes a) ++ or_empty (anchor_attributes b)))
            (Some (or_empty (picture_attributes a) ++ or_empty (picture_attributes b)))
            (Some (or_empty (src_light_attributes a) ++ or_empty (src_light_attributes b)))
            (Some (or_empty (src_dark_attributes a) ++ or_empty (src_dark_attributes b)))
            (default_img_light a \<or> default_img_light b))"
  using assms by (simp add: Badge_add_def attrs_defined_def dict_union_defined)

lemma merge_attr_defined:
  "cur \<noteq> None \<Longrightarrow> merge_attr cur v = Inr (Some (or_empty cur ++ or_empty v))"
  by (auto simp: merge_attr_def or_empty_def split: option.splits)

lemma Badge_set_defined:
  assumes "attrs_defined b"
  shows "Badge_set b ia aa pa sla sda dil =
     Inr (b\<lparr>image_attributes := Some (or_empty (image_attributes b) ++ or_empty ia),
            anchor_attributes := Some (or_empty (anchor_attributes b) ++ or_empty aa),
            picture_attributes := Some (or_empty (picture_attributes b) ++ or_empty pa),
            src_light_attributes := Some (or_empty (src_light_attributes b) ++ or_empty sla),
            src_dark_attributes := Some (or_empty (src_dark_attributes b) ++ or_empty sda),
            default_img_light := (case dil of None \<Rightarrow> default_img_light b | Some v \<Rightarrow> v)\<rparr>)"
  using assms by (simp add: Badge_set_def attrs_defined_def merge_attr_defined)

text \<open>
  C2, amended. For two descriptors whose attribute maps are defined, the sum has the
  light URL of the right operand when that URL is true in Python's sense (neither
  \<open>None\<close> nor empty) and the light URL of the left operand otherwise, likewise for
  the dark URL; its prefer-light flag is the disjunction of the two flags.
\<close>

theorem badge_add_urls_prefer_right:
  assumes "attrs_defined a" and "attrs_defined b"
  shows "\<exists>r. Badge_add a (Obj b) = Inr r
           \<and> src_light r = (if truthy (src_light b) then src_light b else src_light a)
           \<and> src_dark r = (if truthy (src_dark b) then src_dark b else src_dark a)
           \<and> default_img_light r = (default_img_light a \<or> default_img_light b)"
  using assms by (simp add: Badge_add_Obj) (simp add: Badge_init_def py_or_def)

theorem badge_add_urls_prefer_right_witness:
  "attrs_defined badge_a \<and> attrs_defined badge_b
   \<and> (\<exists>r. Badge_add badge_a (Obj badge_b) = Inr r
           \<and> src_light r = PStr ''b.svg'' \<and> src_dark r = PStr ''b-dark.svg''
           \<and> default_img_light r)"
  using badge_add_urls_prefer_right [OF attrs_defined_badge_a attrs_defined_badge_b]
  by (simp add: attrs_defined_badge_a attrs_defined_badge_b)
     (simp add: badge_a_def badge_b_def Badge_init_def)

text \<open>
  C2 as stated, with the left operand's URL preferred, fails: both operands have a
  light URL, and the sum has the right operand's.
\<close>

theorem badge_add_left_url_counterexample:
  "map_sum id src_light (Badge_add badge_a (Obj badge_b)) = Inr (PStr ''b.svg'')
   \<and> src_light badge_a = PStr ''a.svg''"
  by (simp add: Badge_add_Obj attrs_defined_badge_a attrs_defined_badge_b)
     (simp add: badge_a_def badge_b_def Badge_init_def py_or_def)

text \<open>
  C6. For two descriptors whose attribute maps are defined, each of the five
  attribute maps of \<open>a + b\<close> is the union of the two operands' maps in which the
  entry of \<open>b\<close> wins on a key of both (\<open>++\<close> on maps), and \<open>a + None\<close> is \<open>a\<close>.
\<close>

theorem badge_add_attribute_union:
  assumes "attrs_defined a" and "attrs_defined b"
  shows "(\<exists>r. Badge_add a (Obj b) = Inr r
           \<and> image_attributes r
               = Some (or_empty (image_attributes a) ++ or_empty (image_attributes b))
           \<and> anchor_attributes r
               = Some (or_empty (anchor_attributes a) ++ or_empty (anchor_attributes b))
           \<and> picture_attributes r
               = Some (or_empty (picture_attributes a) ++ or_empty (picture_attributes b))
           \<and> src_light_attributes r
               = Some (or_empty (src_light_attributes a) ++ or_empty (src_light_attributes b))
           \<and> src_dark_attributes r
               = Some (or_empty (src_dark_attributes a) ++ or_empty (src_dark_attributes b)))
         \<and> Badge_add a Absent = Inr a"
proof
  show "Badge_add a Absent = Inr a"
    by (simp add: Badge_add_def)
  show "\<exists>r. Badge_add a (Obj b) = Inr r
           \<and> image_attributes r
               = Some (or_empty (image_attributes a) ++ or_empty (image_attributes b))
           \<and> anchor_attributes r
               = Some (or_empty (anchor_attributes a) ++ or_empty (anchor_attributes b))
           \<and> picture_attributes r
               = Some (or_empty (picture_attributes a) ++ or_empty (picture_attributes b))
           \<and> src_light_attributes r
               = Some (or_empty (src_light_attributes a) ++ or_empty (src_light_attributes b))
           \<and> src_dark_attributes r
               = Some (or_empty (src_dark_attributes a) ++ or_empty (src_dark_attributes b))"
    using assms by (simp add: Badge_add_Obj) (simp add: Badge_init_def or_empty_def)
qed

theorem badge_add_attribute_union_witness:
  "attrs_defined badge_a \<and> attrs_defined badge_b
   \<and> (\<exists>r. Badge_add badge_a (Obj badge_b) = Inr r
           \<and> image_attributes r = Some [''alt'' \<mapsto> PStr ''B'', ''height'' \<mapsto> PStr ''20'']
           \<and> anchor_attributes r = Some [''href'' \<mapsto> PStr ''https://example.org''])
   \<and> Badge_add badge_a Absent = Inr badge_a"
proof -
  have ia: "or_empty (image_attributes badge_a) ++ or_empty (image_attributes badge_b)
            = [''alt'' \<mapsto> PStr ''B'', ''height'' \<mapsto> PStr ''20'']"
    by (rule ext) (simp add: badge_a_def badge_b_def Badge_init_def or_empty_def map_add_def)
  have aa: "or_empty (anchor_attributes badge_a) ++ or_empty (anchor_attributes badge_b)
            = [''href'' \<mapsto> PStr ''https://example.org'']"
    by (rule ext) (simp add: badge_a_def badge_b_def Badge_init_def or_empty_def map_add_def)
  from badge_add_attribute_union [OF attrs_defined_badge_a attrs_defined_badge_b]
  show ?thesis
    by (auto simp: ia aa attrs_defined_badge_a attrs_defined_badge_b)
qed

lemma img_src_light_only:
  assumes "src_dark b = PNone" and "img b ia aa l = Inr e"
  shows "element_src e = src_light b"
  using assms
  by (auto simp: img_def html_img_def Let_def
      split: sum.splits option.splits if_splits)

text \<open>
  C9. When the dark URL of a descriptor is absent, every image element that \<open>img\<close>
  returns has the light URL as its source, whatever the prefer-light flag and the
  \<open>light\<close> argument are; and \<open>img\<close> does return an element whenever the image
  attributes in effect are a dict without the key \<open>src\<close>.
\<close>

theorem img_light_only_uses_light_url:
  assumes "src_dark b = PNone"
  shows "(\<forall>e. img b ia aa l = Inr e \<longrightarrow> element_src e = src_light b)
         \<and> ((\<exists>d. dict_or_else ia (image_attributes b) = Some d \<and> d ''src'' = None)
              \<longrightarrow> (\<exists>e. img b ia aa l = Inr e \<and> element_src e = src_light b))"
proof (intro conjI allI impI)
  fix e
  assume "img b ia aa l = Inr e"
  with assms show "element_src e = src_light b"
    by (rule img_src_light_only)
next
  assume "\<exists>d. dict_or_else ia (image_attributes b) = Some d \<and> d ''src'' = None"
  then obtain d where d: "dict_or_else ia (image_attributes b) = Some d" "d ''src'' = None"
    by blast
  then have "\<exists>e. img b ia aa l = Inr e"
    by (auto simp: img_def html_img_def Let_def split: option.splits)
  then obtain e where e: "img b ia aa l = Inr e" ..
  with assms have "element_src e = src_light b"
    by (rule img_src_light_only [rotated -1, rotated])
  with e show "\<exists>e. img b ia aa l = Inr e \<and> element_src e = src_light b"
    by blast
qed

theorem img_light_only_uses_light_url_witness:
  "src_dark badge_a = PNone
   \<and> img badge_a None None (Some False) = Inr (Img (PStr ''a.svg'') [''alt'' \<mapsto> PStr ''A''])
   \<and> (\<exists>e. img badge_a None None (Some False) = Inr e \<and> element_src e = src_light badge_a)"
proof -
  have dark: "src_dark badge_a = PNone"
    by (simp add: badge_a_def Badge_init_def)
  have attrs: "\<exists>d. dict_or_else None (image_attributes badge_a) = Some d \<and> d ''src'' = None"
    by (simp add: badge_a_def Badge_init_def dict_or_else_def or_empty_def)
  have val: "img badge_a None None (Some False)
             = Inr (Img (PStr ''a.svg'') [''alt'' \<mapsto> PStr ''A''])"
    by (simp add: img_def html_img_def badge_a_def Badge_init_def dict_or_else_def or_empty_def)
  from img_light_only_uses_light_url [OF dark, of None None "Some False"] attrs
  have "\<exists>e. img badge_a None None (Some False) = Inr e \<and> element_src e = src_light badge_a"
    by blast
  with dark val show ?thesis by blast
qed

text \<open>
  C10. The five attribute maps of a descriptor are always dicts. The constructor
  stores a dict for each of the five arguments, the argument itself or an empty dict
  for an absent one. On a descriptor with defined maps \<open>set\<close> succeeds, leaves the
  URLs alone, replaces each map by its union with the argument (an absent argument
  leaves the map as it was), replaces the flag only when one is given, and the maps
  stay defined. The sum of two descriptors with defined maps exists, each of its
  maps is the union of the operands' maps, and they are defined; \<open>a + None\<close> is
  \<open>a\<close>.
\<close>

theorem attribute_maps_always_defined:
  "attrs_defined (Badge_init sl sd ia aa pa sla sda dil)
   \<and> Badge_init sl sd ia aa pa sla sda dil
       = \<lparr>src_light = sl, src_dark = sd,
          image_attributes = Some (case ia of None \<Rightarrow> Map.empty | Some d \<Rightarrow> d),
          anchor_attributes = Some (case aa of None \<Rightarrow> Map.empty | Some d \<Rightarrow> d),
          picture_attributes = Some (case pa of None \<Rightarrow> Map.empty | Some d \<Rightarrow> d),
          src_light_attributes = Some (case sla of None \<Rightarrow> Map.empty | Some d \<Rightarrow> d),
          src_dark_attributes = Some (case sda of None \<Rightarrow> Map.empty | Some d \<Rightarrow> d),
          default_img_light = dil\<rparr>
   \<and> (attrs_defined b \<longrightarrow>
        (\<exists>b'. Badge_set b ia aa pa sla sda flag = Inr b' \<and> attrs_defined b'
              \<and> src_light b' = src_light b \<and> src_dark b' = src_dark b
              \<and> image_attributes b' = Some (or_empty (image_attributes b) ++ or_empty ia)
              \<and> anchor_attributes b' = Some (or_empty (anchor_attributes b) ++ or_empty aa)
              \<and> picture_attributes b' = Some (or_empty (picture_attributes b) ++ or_empty pa)
              \<and> src_light_attributes b'
                  = Some (or_empty (src_light_attributes b) ++ or_empty sla)
              \<and> src_dark_attributes b'
                  = Some (or_empty (src_dark_attributes b) ++ or_empty sda)
              \<and> default_img_light b'
                  = (case flag of None \<Rightarrow> default_img_light b | Some v \<Rightarrow> v)))
   \<and> (attrs_defined b \<longrightarrow> Badge_set b None None None None None None = Inr b)
   \<and> (attrs_defined a \<and> attrs_defined b \<longrightarrow>
        (\<exists>r. Badge_add a (Obj b) = Inr r \<and> attrs_defined r
             \<and> image_attributes r
                 = Some (or_empty (image_attributes a) ++ or_empty (image_attributes b))
             \<and> anchor_attributes r
                 = Some (or_empty (anchor_attributes a) ++ or_empty (anchor_attributes b))
             \<and> picture_attributes r
                 = Some (or_empty (picture_attributes a) ++ or_empty (picture_attributes b))
             \<and> src_light_attributes r
                 = Some (or_empty (src_light_attributes a) ++ or_empty (src_light_attributes b))
             \<and> src_dark_attributes r
                 = Some (or_empty (src_dark_attributes a) ++ or_empty (src_dark_attributes b))))
   \<and> Badge_add a Absent = Inr a"
proof (intro conjI impI)
  show "attrs_defined (Badge_init sl sd ia aa pa sla sda dil)"
    by (rule attrs_defined_init)
  show "Badge_init sl sd ia aa pa sla sda dil
       = \<lparr>src_light = sl, src_dark = sd,
          image_attributes = Some (case ia of None \<Rightarrow> Map.empty | Some d \<Rightarrow> d),
          anchor_attributes = Some (case aa of None \<Rightarrow> Map.empty | Some d \<Rightarrow> d),
          picture_attributes = Some (case pa of None \<Rightarrow> Map.empty | Some d \<Rightarrow> d),
          src_light_attributes = Some (case sla of None \<Rightarrow> Map.empty | Some d \<Rightarrow> d),
          src_dark_attributes = Some (case sda of None \<Rightarrow> Map.empty | Some d \<Rightarrow> d),
          default_img_light = dil\<rparr>"
    by (simp add: Badge_init_def or_empty_def)
  show "Badge_add a Absent = Inr a"
    by (simp add: Badge_add_def)
next
  assume "attrs_defined b"
  then show "\<exists>b'. Badge_set b ia aa pa sla sda flag = Inr b' \<and> attrs_defined b'
              \<and> src_light b' = src_light b \<and> src_dark b' = src_dark b
              \<and> image_attributes b' = Some (or_empty (image_attributes b) ++ or_empty ia)
              \<and> anchor_attributes b' = Some (or_empty (anchor_attributes b) ++ or_empty aa)
              \<and> picture_attributes b' = Some (or_empty (picture_attributes b) ++ or_empty pa)
              \<and> src_light_attributes b'
                  = Some (or_empty (src_light_attributes b) ++ or_empty sla)
              \<and> src_dark_attributes b'
                  = Some (or_empty (src_dark_attributes b) ++ or_empty sda)
              \<and> default_img_light b'
                  = (case flag of None \<Rightarrow> default_img_light b | Some v \<Rightarrow> v)"
    by (simp add: Badge_set_defined) (simp add: attrs_defined_def)
next
  assume "attrs_defined b"
  then show "Badge_set b None None None None None None = Inr b"
    by (auto simp: Badge_set_def merge_attr_def attrs_defined_def)
next
  assume "attrs_defined a \<and> attrs_defined b"
  then show "\<exists>r. Badge_add a (Obj b) = Inr r \<and> attrs_defined r
             \<and> image_attributes r
                 = Some (or_empty (image_attributes a) ++ or_empty (image_attributes b))
             \<and> anchor_attributes r
                 = Some (or_empty (anchor_attributes a) ++ or_empty (anchor_attributes b))
             \<and> picture_attributes r
                 = Some (or_empty (picture_attributes a) ++ or_empty (picture_attributes b))
             \<and> src_light_attributes r
                 = Some (or_empty (src_light_attributes a) ++ or_empty (src_light_attributes b))
             \<and> src_dark_attributes r
                 = Some (or_empty (src_dark_attributes a) ++ or_empty (src_dark_attributes b))"
    by (simp add: Badge_add_Obj attrs_defined_init) (simp add: Badge_init_def or_empty_def)
qed

theorem attribute_maps_always_defined_witness:
  "attrs_defined badge_a \<and> attrs_defined badge_b
   \<and> (\<exists>b'. Badge_set badge_b (Some [''alt'' \<mapsto> PStr ''C'']) None None None None (Some False)
             = Inr b' \<and> attrs_defined b'
           \<and> image_attributes b' = Some [''alt'' \<mapsto> PStr ''C'', ''height'' \<mapsto> PStr ''20'']
           \<and> anchor_attributes b' = Some [''href'' \<mapsto> PStr ''https://example.org'']
           \<and> \<not> default_img_light b')
   \<and> Badge_set badge_b None None None None None None = Inr badge_b
   \<and> (\<exists>r. Badge_add badge_a (Obj badge_b) = Inr r \<and> attrs_defined r
           \<and> image_attributes r = Some [''alt'' \<mapsto> PStr ''B'', ''height'' \<mapsto> PStr ''20''])"
proof -
  note t = attribute_maps_always_defined
    [where b = badge_b and a = badge_a and ia = "Some [''alt'' \<mapsto> PStr ''C'']"
       and aa = None and pa = None and sla = None and sda = None and flag = "Some False"
       and sl = PNone and sd = PNone and dil = False]
  have ia: "or_empty (image_attributes badge_b) ++ or_empty (Some [''alt'' \<mapsto> PStr ''C''])
            = [''alt'' \<mapsto> PStr ''C'', ''height'' \<mapsto> PStr ''20'']"
    by (rule ext) (simp add: badge_b_def Badge_init_def or_empty_def map_add_def)
  have aa: "or_empty (anchor_attributes badge_b) ++ or_empty None
            = [''href'' \<mapsto> PStr ''https://example.org'']"
    by (rule ext) (simp add: badge_b_def Badge_init_def or_empty_def map_add_def)
  have ab: "or_empty (image_attributes badge_a) ++ or_empty (image_attributes badge_b)
            = [''alt'' \<mapsto> PStr ''B'', ''height'' \<mapsto> PStr ''20'']"
    by (rule ext) (simp add: badge_a_def badge_b_def Badge_init_def or_empty_def map_add_def)
  from t attrs_defined_badge_b
  obtain b' where b':
    "Badge_set badge_b (Some [''alt'' \<mapsto> PStr ''C'']) None None None None (Some False) = Inr b'"
    "attrs_defined b'"
    "image_attributes b'
       = Some (or_empty (image_attributes badge_b) ++ or_empty (Some [''alt'' \<mapsto> PStr ''C'']))"
    "anchor_attributes b' = Some (or_empty (anchor_attributes badge_b) ++ or_empty None)"
    "default_img_light b' = (case Some False of None \<Rightarrow> default_img_light badge_b | Some v \<Rightarrow> v)"
    by blast
  from b' have set: "\<exists>b'. Badge_set badge_b (Some [''alt'' \<mapsto> PStr ''C'']) None None None None (Some False)
             = Inr b' \<and> attrs_defined b'
           \<and> image_attributes b' = Some [''alt'' \<mapsto> PStr ''C'', ''height'' \<mapsto> PStr ''20'']
           \<and> anchor_attributes b' = Some [''href'' \<mapsto> PStr ''https://example.org'']
           \<and> \<not> default_img_light b'"
    unfolding ia aa by simp
  from t attrs_defined_badge_b
  have noop: "Badge_set badge_b None None None None None None = Inr badge_b"
    by blast
  from t attrs_defined_badge_a attrs_defined_badge_b
  obtain r where r:
    "Badge_add badge_a (Obj badge_b) = Inr r" "attrs_defined r"
    "image_attributes r
       = Some (or_empty (image_attributes badge_a) ++ or_empty (image_attributes badge_b))"
    by blast
  from r have add: "\<exists>r. Badge_add badge_a (Obj badge_b) = Inr r \<and> attrs_defined r
           \<and> image_attributes r = Some [''alt'' \<mapsto> PStr ''B'', ''height'' \<mapsto> PStr ''20'']"
    unfolding ab by simp
  from set noop add attrs_defined_badge_a attrs_defined_badge_b show ?thesis
    by blast
qed

end
